theory Spec2Isabelle
  imports Main
begin

section \<open>Text operations of the Python source\<close>

text \<open>
  The documentation tester (\<^verbatim>\<open>scripts/test_docs.py\<close> of the documentation-generator-pro
  skill) works on Python \<^verbatim>\<open>str\<close> values. A text is modelled as a \<open>string\<close> in which every
  \<open>char\<close> stands for one code point below 256; the character classes below are the ones
  Python 3 uses for these code points.
\<close>

type_synonym path = string

definition isspace :: "char \<Rightarrow> bool" where
  \<comment> \<open>\<^verbatim>\<open>str.isspace\<close>, also the class \<^verbatim>\<open>\s\<close> of \<^verbatim>\<open>re\<close> and what \<^verbatim>\<open>strip()\<close> removes\<close>
  "isspace c =
     (let n = (of_char c :: nat)
      in (9 \<le> n \<and> n \<le> 13) \<or> (28 \<le> n \<and> n \<le> 32) \<or> n = 133 \<or> n = 160)"

definition isword :: "char \<Rightarrow> bool" where
  \<comment> \<open>the class \<^verbatim>\<open>\w\<close> of \<^verbatim>\<open>re\<close> on \<^verbatim>\<open>str\<close> patterns: alphanumeric or underscore\<close>
  "isword c =
     (let n = (of_char c :: nat)
      in (48 \<le> n \<and> n \<le> 57) \<or> (65 \<le> n \<and> n \<le> 90) \<or> n = 95 \<or> (97 \<le> n \<and> n \<le> 122)
         \<or> n = 170 \<or> n = 178 \<or> n = 179 \<or> n = 181 \<or> n = 185 \<or> n = 186
         \<or> (188 \<le> n \<and> n \<le> 190) \<or> (192 \<le> n \<and> n \<le> 214) \<or> (216 \<le> n \<and> n \<le> 246)
         \<or> 248 \<le> n)"

definition lower_char :: "char \<Rightarrow> char" where
  "lower_char c =
     (let n = (of_char c :: nat)
      in if (65 \<le> n \<and> n \<le> 90) \<or> (192 \<le> n \<and> n \<le> 222 \<and> n \<noteq> 215)
         then char_of (n + 32) else c)"

definition lower :: "string \<Rightarrow> string" where
  \<comment> \<open>\<^verbatim>\<open>s.lower()\<close>\<close>
  "lower s = map lower_char s"

definition startswith :: "string \<Rightarrow> string \<Rightarrow> bool" where
  \<comment> \<open>\<^verbatim>\<open>s.startswith(p)\<close>\<close>
  "startswith s p = (take (length p) s = p)"

fun contains :: "string \<Rightarrow> string \<Rightarrow> bool" where
  \<comment> \<open>\<^verbatim>\<open>p in s\<close>\<close>
  "contains p [] = (p = [])"
| "contains p (c # cs) = (startswith (c # cs) p \<or> contains p cs)"

definition strip :: "string \<Rightarrow> string" where
  \<comment> \<open>\<^verbatim>\<open>s.strip()\<close>\<close>
  "strip s = rev (dropWhile isspace (rev (dropWhile isspace s)))"

definition lstrip_char :: "char \<Rightarrow> string \<Rightarrow> string" where
  \<comment> \<open>\<^verbatim>\<open>s.lstrip(c)\<close> for a single character \<open>c\<close>\<close>
  "lstrip_char c s = dropWhile (\<lambda>x. x = c) s"

fun split_on :: "char \<Rightarrow> string \<Rightarrow> string list" where
  \<comment> \<open>\<^verbatim>\<open>s.split(d)\<close> for a single character \<open>d\<close>: never an empty list\<close>
  "split_on d [] = [[]]"
| "split_on d (c # cs) =
     (if c = d then [] # split_on d cs
      else (case split_on d cs of [] \<Rightarrow> [[c]] | l # ls \<Rightarrow> (c # l) # ls))"

function count_str :: "string \<Rightarrow> string \<Rightarrow> nat" where
  \<comment> \<open>\<^verbatim>\<open>s.count(p)\<close>: occurrences counted left to right without overlap\<close>
  "count_str p s =
     (if p = [] then length s + 1
      else if s = [] then 0
      else if startswith s p then 1 + count_str p (drop (length p) s)
      else count_str p (tl s))"
  by pat_completeness auto
termination
  by (relation "measure (\<lambda>(p, s). length s)") auto

declare count_str.simps [simp del]

definition digit_char :: "nat \<Rightarrow> char" where
  "digit_char d = char_of (48 + d)"

function str_nat :: "nat \<Rightarrow> string" where
  \<comment> \<open>the decimal text an f-string gives for a non-negative integer\<close>
  "str_nat n = (if n < 10 then [digit_char n] else str_nat (n div 10) @ [digit_char (n mod 10)])"
  by pat_completeness auto
termination
  by (relation "measure id") auto

declare str_nat.simps [simp del]

fun join_str :: "string \<Rightarrow> string list \<Rightarrow> string" where
  \<comment> \<open>\<^verbatim>\<open>sep.join(xs)\<close>\<close>
  "join_str sep [] = []"
| "join_str sep [x] = x"
| "join_str sep (x # y # ys) = x @ sep @ join_str sep (y # ys)"

definition newline :: char where
  "newline = CHR 0x0A"

definition fence :: string where
  \<comment> \<open>the triple-backtick marker\<close>
  "fence = [CHR 0x60, CHR 0x60, CHR 0x60]"


section \<open>Regular expressions of the source as scanners\<close>

text \<open>
  \<^verbatim>\<open>re.findall\<close> tries the pattern at each position from left to right; after a match it
  continues behind the match, otherwise one character further. A pattern is given as a
  function from the text at the current position to the captured groups and the text
  behind the match. Every pattern of the source consumes at least one character, so the
  scan always continues in a shorter text; the second branch below is for the totality
  of the definition only.
\<close>

function findall :: "(string \<Rightarrow> ('a \<times> string) option) \<Rightarrow> string \<Rightarrow> 'a list" where
  "findall m s =
     (if s = [] then []
      else (case m s of
              None \<Rightarrow> findall m (tl s)
            | Some (x, rest) \<Rightarrow>
                if length rest < length s then x # findall m rest
                else x # findall m (tl s)))"
  by pat_completeness auto
termination
  by (relation "measure (\<lambda>(m, s). length s)") auto

declare findall.simps [simp del]

definition match_label :: "string \<Rightarrow> (string \<times> string) option" where
  \<comment> \<open>\<^verbatim>\<open>\[([^\]]+)\]\<close>: the label and the text behind the closing bracket\<close>
  "match_label s =
     (case s of
        [] \<Rightarrow> None
      | c # s1 \<Rightarrow>
          if c \<noteq> CHR ''['' then None
          else (let t = takeWhile (\<lambda>x. x \<noteq> CHR '']'') s1;
                    s2 = dropWhile (\<lambda>x. x \<noteq> CHR '']'') s1
                in if t = [] then None
                   else (case s2 of [] \<Rightarrow> None | d # s3 \<Rightarrow> Some (t, s3))))"

definition match_empty_link :: "string \<Rightarrow> (string \<times> string) option" where
  \<comment> \<open>\<^verbatim>\<open>\[([^\]]+)\]\(\s*\)\<close>\<close>
  "match_empty_link s =
     (case match_label s of
        None \<Rightarrow> None
      | Some (t, s3) \<Rightarrow>
          (case s3 of
             [] \<Rightarrow> None
           | p # s4 \<Rightarrow>
               if p \<noteq> CHR ''('' then None
               else (case dropWhile isspace s4 of
                       [] \<Rightarrow> None
                     | q # rest \<Rightarrow> if q = CHR '')'' then Some (t, rest) else None)))"

definition match_link :: "string \<Rightarrow> ((string \<times> string) \<times> string) option" where
  \<comment> \<open>\<^verbatim>\<open>\[([^\]]+)\]\(([^\)]+)\)\<close>: label and target\<close>
  "match_link s =
     (case match_label s of
        None \<Rightarrow> None
      | Some (t, s3) \<Rightarrow>
          (case s3 of
             [] \<Rightarrow> None
           | p # s4 \<Rightarrow>
               if p \<noteq> CHR ''('' then None
               else (let u = takeWhile (\<lambda>x. x \<noteq> CHR '')'') s4;
                         s5 = dropWhile (\<lambda>x. x \<noteq> CHR '')'') s4
                     in if u = [] then None
                        else (case s5 of [] \<Rightarrow> None | q # rest \<Rightarrow> Some ((t, u), rest)))))"


section \<open>Paths\<close>

text \<open>A \<^verbatim>\<open>pathlib\<close> path of a POSIX system is modelled by the text \<^verbatim>\<open>str\<close> gives for it.\<close>

definition posix_path :: "string \<Rightarrow> path" where
  \<comment> \<open>\<^verbatim>\<open>str(Path(s))\<close>: empty and \<^verbatim>\<open>.\<close> components are dropped\<close>
  "posix_path s =
     (let root = (if startswith s ''//'' \<and> \<not> startswith s ''///'' then ''//''
                  else if startswith s ''/'' then ''/'' else []);
          parts = filter (\<lambda>x. x \<noteq> [] \<and> x \<noteq> ''.'') (split_on (CHR ''/'') s)
      in if root = [] \<and> parts = [] then ''.'' else root @ join_str ''/'' parts)"

definition path_join :: "path \<Rightarrow> string \<Rightarrow> path" where
  \<comment> \<open>\<^verbatim>\<open>a / b\<close>\<close>
  "path_join a b =
     (if startswith b ''/'' \<or> a = [] then posix_path b
      else if last a = CHR ''/'' then posix_path (a @ b)
      else posix_path (a @ ''/'' @ b))"

definition parent :: "path \<Rightarrow> path" where
  \<comment> \<open>\<^verbatim>\<open>p.parent\<close>\<close>
  "parent p =
     (let d = rev (dropWhile (\<lambda>c. c \<noteq> CHR ''/'') (rev p))
      in if d = [] then ''.'' else if d = ''/'' \<or> d = ''//'' then d else butlast d)"


section \<open>The tester and its findings\<close>

text \<open>
  The dictionary \<^verbatim>\<open>self.stats\<close> has five fixed keys; the keys \<^verbatim>\<open>"errors"\<close> and
  \<^verbatim>\<open>"warnings"\<close> are the fields \<open>error_count\<close> and \<open>warning_count\<close>, the lists
  \<^verbatim>\<open>self.errors\<close> and \<^verbatim>\<open>self.warnings\<close> keep their names.
\<close>

record stats =
  files_checked :: int
  links_checked :: int
  code_blocks_tested :: int
  error_count :: int
  warning_count :: int

type_synonym finding = "path \<times> string"

record tester =
  docs_path :: path
  errors :: "finding list"
  warnings :: "finding list"
  stats :: stats

definition init_tester :: "string \<Rightarrow> tester" where
  \<comment> \<open>\<^verbatim>\<open>DocumentationTester.__init__\<close>: \<^verbatim>\<open>self.docs_path = Path(docs_path)\<close>\<close>
  "init_tester p =
     \<lparr>docs_path = posix_path p, errors = [], warnings = [],
      stats = \<lparr>files_checked = 0, links_checked = 0, code_blocks_tested = 0,
               error_count = 0, warning_count = 0\<rparr>\<rparr>"

definition add_error :: "path \<Rightarrow> string \<Rightarrow> tester \<Rightarrow> tester" where
  "add_error filepath message t =
     t\<lparr>errors := errors t @ [(filepath, message)],
       stats := (stats t)\<lparr>error_count := error_count (stats t) + 1\<rparr>\<rparr>"

definition add_warning :: "path \<Rightarrow> string \<Rightarrow> tester \<Rightarrow> tester" where
  "add_warning filepath message t =
     t\<lparr>warnings := warnings t @ [(filepath, message)],
       stats := (stats t)\<lparr>warning_count := warning_count (stats t) + 1\<rparr>\<rparr>"


definition stats_le :: "stats \<Rightarrow> stats \<Rightarrow> bool" where
  \<comment> \<open>no counter of \<open>b\<close> is below the same counter of \<open>a\<close>\<close>
  "stats_le a b =
     (files_checked a \<le> files_checked b \<and> links_checked a \<le> links_checked b
      \<and> code_blocks_tested a \<le> code_blocks_tested b \<and> error_count a \<le> error_count b
      \<and> warning_count a \<le> warning_count b)"


section \<open>Markdown syntax checks\<close>

definition h1_count :: "string list \<Rightarrow> nat" where
  "h1_count lns =
     length (filter (\<lambda>line. startswith (strip line) ''# '' \<and> \<not> startswith (strip line) ''##'') lns)"

definition multiple_h1_msg :: string where
  "multiple_h1_msg = ''Multiple H1 headers found (should have only one)''"

definition unclosed_msg :: string where
  "unclosed_msg = ''Unclosed code block (odd number of '' @ fence @ '')''"

definition skipped_level_msg :: "nat \<Rightarrow> nat \<Rightarrow> nat \<Rightarrow> string" where
  "skipped_level_msg i prev_level level =
     ''Line '' @ str_nat i @ '': Skipped heading level (went from H'' @ str_nat prev_level
       @ '' to H'' @ str_nat level @ '')''"

fun heading_hierarchy :: "path \<Rightarrow> nat \<Rightarrow> nat \<Rightarrow> string list \<Rightarrow> tester \<Rightarrow> tester" where
  \<comment> \<open>the loop over \<^verbatim>\<open>enumerate(lines, 1)\<close> with the loop variable \<^verbatim>\<open>prev_level\<close>\<close>
  "heading_hierarchy filepath i prev_level [] t = t"
| "heading_hierarchy filepath i prev_level (line # ls) t =
     (if startswith (strip line) ''#'' then
        (let level = length line - length (lstrip_char (CHR ''#'') line)
         in heading_hierarchy filepath (i + 1) level ls
              (if level > prev_level + 1 \<and> prev_level > 0
               then add_warning filepath (skipped_level_msg i prev_level level) t
               else t))
      else heading_hierarchy filepath (i + 1) prev_level ls t)"

definition check_markdown_syntax :: "path \<Rightarrow> string \<Rightarrow> tester \<Rightarrow> tester" where
  "check_markdown_syntax filepath content t =
     (let lns = split_on newline content;
          t1 = (if h1_count lns > 1 then add_warning filepath multiple_h1_msg t else t);
          empty_links = findall match_empty_link content;
          t2 = (if empty_links \<noteq> []
                then add_error filepath (''Empty links found: '' @ join_str '', '' empty_links) t1
                else t1);
          code_block_count = count_str fence content;
          t3 = (if code_block_count mod 2 \<noteq> 0 then add_error filepath unclosed_msg t2 else t2)
      in heading_hierarchy filepath 1 0 lns t3)"


section \<open>The world outside the tester\<close>

text \<open>
  The tester reads the file system, starts interpreters and sends requests. What these do
  is not code of the repository: the file system and the subprocesses started so far are a
  state that is passed along, and the answers of the operating system, of the interpreters
  and of the network are functions of an environment \<open>e\<close>, about which nothing is assumed.
  Reading a file, resolving a path and asking whether a path exists can raise; the source
  catches none of these exceptions, so each of them ends the run. Writing to the standard
  output, and creating and writing a temporary file, are taken to succeed. An exception of
  a subprocess call is one that \<^verbatim>\<open>except Exception\<close> catches.
\<close>

record world =
  files :: "path \<rightharpoonup> string"  \<comment> \<open>the paths that exist, each with its text\<close>
  spawned :: "string list list"  \<comment> \<open>the command line of every \<^verbatim>\<open>subprocess.run\<close> so far\<close>

datatype proc_outcome =
    Completed int string  \<comment> \<open>return code and captured stderr\<close>
  | TimeoutExpired
  | Raised string  \<comment> \<open>any other \<^verbatim>\<open>Exception\<close>, with its text\<close>

datatype http_outcome =
    Response nat  \<comment> \<open>status code\<close>
  | RequestException string
  | OtherException string  \<comment> \<open>an exception that is no \<^verbatim>\<open>RequestException\<close>\<close>

datatype uncaught =
    Uncaught string  \<comment> \<open>an exception that no handler of the source catches, with its text\<close>

record env =
  glob_md :: "path \<Rightarrow> world \<Rightarrow> path list"  \<comment> \<open>\<^verbatim>\<open>list(root.glob("**/*.md"))\<close>\<close>
  read_text :: "world \<Rightarrow> path \<Rightarrow> uncaught + string"  \<comment> \<open>\<^verbatim>\<open>Path.read_text()\<close>\<close>
  resolve :: "world \<Rightarrow> path \<Rightarrow> uncaught + path"  \<comment> \<open>\<^verbatim>\<open>Path.resolve()\<close>, as text\<close>
  stat_error :: "world \<Rightarrow> path \<Rightarrow> string option"
    \<comment> \<open>the \<^verbatim>\<open>OSError\<close> of \<^verbatim>\<open>stat\<close> that \<^verbatim>\<open>Path.exists()\<close> lets through, if there is one\<close>
  mktemp :: "string \<Rightarrow> world \<Rightarrow> path"  \<comment> \<open>the name \<^verbatim>\<open>NamedTemporaryFile\<close> picks for a suffix\<close>
  run_proc :: "string list \<Rightarrow> world \<Rightarrow> proc_outcome \<times> (path \<rightharpoonup> string)"
  requests_installed :: bool
  requests_head :: "string \<Rightarrow> http_outcome"

definition path_exists :: "world \<Rightarrow> path \<Rightarrow> bool" where
  \<comment> \<open>the path is present in the file system\<close>
  "path_exists w p = (files w p \<noteq> None)"

definition py_exists :: "env \<Rightarrow> world \<Rightarrow> path \<Rightarrow> uncaught + bool" where
  \<comment> \<open>\<^verbatim>\<open>Path.exists()\<close>: it returns whether the path is present, unless \<^verbatim>\<open>stat\<close> fails with an
      error it does not ignore (a name that is too long, for one), which it raises\<close>
  "py_exists e w p =
     (case stat_error e w p of
        Some msg \<Rightarrow> Inl (Uncaught msg)
      | None \<Rightarrow> Inr (path_exists w p))"

definition subprocess_run :: "env \<Rightarrow> string list \<Rightarrow> world \<Rightarrow> proc_outcome \<times> world" where
  "subprocess_run e argv w =
     (case run_proc e argv w of
        (outcome, fs) \<Rightarrow> (outcome, \<lparr>files = fs, spawned = spawned w @ [argv]\<rparr>))"

definition write_file :: "path \<Rightarrow> string \<Rightarrow> world \<Rightarrow> world" where
  "write_file p text w = w\<lparr>files := (files w)(p \<mapsto> text)\<rparr>"

definition unlink :: "path \<Rightarrow> world \<Rightarrow> world" where
  \<comment> \<open>\<^verbatim>\<open>Path(p).unlink(missing_ok=True)\<close>\<close>
  "unlink p w = w\<lparr>files := (files w)(p := None)\<rparr>"


section \<open>Link checks\<close>

definition broken_link_msg :: "string \<Rightarrow> path \<Rightarrow> string" where
  "broken_link_msg link_url link_path = ''Broken link: '' @ link_url @ '' -> '' @ link_path"

definition count_link :: "tester \<Rightarrow> tester" where
  \<comment> \<open>\<^verbatim>\<open>self.stats["links_checked"] += 1\<close>\<close>
  "count_link t = t\<lparr>stats := (stats t)\<lparr>links_checked := links_checked (stats t) + 1\<rparr>\<rparr>"

definition link_base :: "path \<Rightarrow> path \<Rightarrow> string \<Rightarrow> path" where
  \<comment> \<open>the path that is resolved: relative to the current file, or relative to the root\<close>
  "link_base root filepath link_url =
     (if \<not> startswith link_url ''/'' then path_join (parent filepath) link_url
      else path_join root (lstrip_char (CHR ''/'') link_url))"

definition cut_anchor :: "path \<Rightarrow> path" where
  \<comment> \<open>\<^verbatim>\<open>Path(str(link_path).split('#')[0])\<close> when the text of the path holds a \<^verbatim>\<open>#\<close>\<close>
  "cut_anchor link_path =
     (if contains ''#'' link_path then posix_path (takeWhile (\<lambda>c. c \<noteq> CHR ''#'') link_path)
      else link_path)"

fun check_link ::
  "env \<Rightarrow> world \<Rightarrow> path \<Rightarrow> bool \<Rightarrow> string \<times> string \<Rightarrow> tester \<Rightarrow> uncaught option \<times> tester" where
  \<comment> \<open>the body of the loop of \<^verbatim>\<open>_check_links\<close>: the exception that ends it, if one is raised,
      and the tester as it is then\<close>
  "check_link e w filepath fix (link_text, link_url) t =
     (let t1 = count_link t
      in if startswith link_url ''#'' then (None, t1)
         else if startswith link_url ''http://'' \<or> startswith link_url ''https://''
         then (None, t1)
         else if startswith link_url ''mailto:'' then (None, t1)
         else (case resolve e w (link_base (docs_path t1) filepath link_url) of
                 Inl x \<Rightarrow> (Some x, t1)
               | Inr resolved \<Rightarrow>
                   (let link_path = cut_anchor resolved
                    in (case py_exists e w link_path of
                          Inl x \<Rightarrow> (Some x, t1)
                        | Inr found \<Rightarrow>
                            if \<not> found
                            then (None, add_error filepath (broken_link_msg link_url link_path) t1)
                            else (None, t1)))))"

fun check_each_link ::
  "env \<Rightarrow> world \<Rightarrow> path \<Rightarrow> bool \<Rightarrow> (string \<times> string) list \<Rightarrow> tester
     \<Rightarrow> uncaught option \<times> tester" where
  "check_each_link e w filepath fix [] t = (None, t)"
| "check_each_link e w filepath fix (l # ls) t =
     (case check_link e w filepath fix l t of
        (Some x, t') \<Rightarrow> (Some x, t')
      | (None, t') \<Rightarrow> check_each_link e w filepath fix ls t')"

definition check_links ::
  "env \<Rightarrow> world \<Rightarrow> path \<Rightarrow> string \<Rightarrow> bool \<Rightarrow> tester \<Rightarrow> uncaught option \<times> tester" where
  "check_links e w filepath content fix t =
     check_each_link e w filepath fix (findall match_link content) t"




section \<open>Common issues\<close>

definition match_todo :: "string \<Rightarrow> (string \<times> string) option" where
  \<comment> \<open>\<^verbatim>\<open>TODO|FIXME|XXX\<close>\<close>
  "match_todo s =
     (if startswith s ''TODO'' then Some (''TODO'', drop 4 s)
      else if startswith s ''FIXME'' then Some (''FIXME'', drop 5 s)
      else if startswith s ''XXX'' then Some (''XXX'', drop 3 s)
      else None)"

definition long_line_msg :: "nat \<Rightarrow> nat \<Rightarrow> string" where
  "long_line_msg i n = ''Line '' @ str_nat i @ '': Very long line ('' @ str_nat n @ '' chars)''"

fun long_lines :: "path \<Rightarrow> nat \<Rightarrow> bool \<Rightarrow> string list \<Rightarrow> tester \<Rightarrow> tester" where
  \<comment> \<open>the loop over \<^verbatim>\<open>enumerate(lines, 1)\<close> with the loop variable \<^verbatim>\<open>in_code_block\<close>\<close>
  "long_lines filepath i in_code_block [] t = t"
| "long_lines filepath i in_code_block (line # ls) t =
     (if startswith (strip line) fence
      then long_lines filepath (i + 1) (\<not> in_code_block) ls t
      else long_lines filepath (i + 1) in_code_block ls
             (if \<not> in_code_block \<and> length line > 120
              then add_warning filepath (long_line_msg i (length line)) t
              else t))"

definition doubled_at :: "string \<Rightarrow> char option \<Rightarrow> string \<Rightarrow> bool" where
  \<comment> \<open>\<^verbatim>\<open>\bW\s+W\b\<close> with \<^verbatim>\<open>re.IGNORECASE\<close> at the start of \<open>s\<close>, for a lower-case ASCII
      word \<open>word\<close>; \<open>prev\<close> is the character before \<open>s\<close>\<close>
  "doubled_at word prev s =
     (let n = length word; r = drop n s; r2 = dropWhile isspace r
      in (case prev of None \<Rightarrow> True | Some p \<Rightarrow> \<not> isword p)
         \<and> length s \<ge> n \<and> lower (take n s) = word
         \<and> (case r of [] \<Rightarrow> False | x # xs \<Rightarrow> isspace x)
         \<and> length r2 \<ge> n \<and> lower (take n r2) = word
         \<and> (case drop n r2 of [] \<Rightarrow> True | x # xs \<Rightarrow> \<not> isword x))"

fun search_doubled :: "string \<Rightarrow> char option \<Rightarrow> string \<Rightarrow> bool" where
  \<comment> \<open>\<^verbatim>\<open>re.search\<close> of that pattern\<close>
  "search_doubled word prev [] = False"
| "search_doubled word prev (c # cs) =
     (doubled_at word prev (c # cs) \<or> search_doubled word (Some c) cs)"

definition typo_msg :: "string \<Rightarrow> string" where
  "typo_msg word = ''Possible typo: duplicate '' @ [CHR 0x22] @ word @ [CHR 0x22]"

fun common_typos :: "path \<Rightarrow> string \<Rightarrow> string list \<Rightarrow> tester \<Rightarrow> tester" where
  "common_typos filepath content [] t = t"
| "common_typos filepath content (word # ws) t =
     common_typos filepath content ws
       (if search_doubled word None content then add_warning filepath (typo_msg word) t else t)"

definition check_common_issues :: "path \<Rightarrow> string \<Rightarrow> tester \<Rightarrow> tester" where
  "check_common_issues filepath content t =
     (let todos = findall match_todo content;
          t1 = (if todos \<noteq> []
                then add_warning filepath
                       (''Found '' @ str_nat (length todos) @ '' TODO/FIXME markers'') t
                else t);
          t2 = long_lines filepath 1 False (split_on newline content) t1
      in common_typos filepath content [''the'', ''of'', ''is''] t2)"


section \<open>Code examples\<close>

fun split_fence :: "string \<Rightarrow> (string \<times> string) option" where
  \<comment> \<open>\<^verbatim>\<open>(.*?)\<close> followed by the fence, with \<^verbatim>\<open>re.DOTALL\<close>: the text before the first fence
      and the text behind it\<close>
  "split_fence [] = None"
| "split_fence (c # cs) =
     (if startswith (c # cs) fence then Some ([], drop 3 (c # cs))
      else (case split_fence cs of None \<Rightarrow> None | Some (body, rest) \<Rightarrow> Some (c # body, rest)))"

definition match_code_block :: "string \<Rightarrow> ((string \<times> string) \<times> string) option" where
  \<comment> \<open>the fence, then \<^verbatim>\<open>(\w+)\n(.*?)\<close>, then the fence\<close>
  "match_code_block s =
     (if \<not> startswith s fence then None
      else (let s1 = drop 3 s; lang = takeWhile isword s1; s2 = dropWhile isword s1
            in if lang = [] then None
               else (case s2 of
                       [] \<Rightarrow> None
                     | c # s3 \<Rightarrow>
                         if c \<noteq> newline then None
                         else (case split_fence s3 of
                                 None \<Rightarrow> None
                               | Some (body, rest) \<Rightarrow> Some ((lang, body), rest)))))"

definition python_syntax_msg :: "string \<Rightarrow> string" where
  "python_syntax_msg stderr = ''Python code syntax error:'' @ [newline] @ stderr"

definition javascript_syntax_msg :: "string \<Rightarrow> string" where
  "javascript_syntax_msg stderr = ''JavaScript code syntax error:'' @ [newline] @ stderr"

definition has_placeholder :: "string \<Rightarrow> bool" where
  \<comment> \<open>the test at the head of \<^verbatim>\<open>_test_python_code\<close> and of \<^verbatim>\<open>_test_javascript_code\<close>\<close>
  "has_placeholder code =
     (contains ''YOUR_API_KEY'' code \<or> contains ''your-'' (lower code)
      \<or> contains ''example.com'' code)"

definition py_compile_cmd :: "path \<Rightarrow> string list" where
  "py_compile_cmd temp_file = [''python'', ''-m'', ''py_compile'', temp_file]"

definition node_version_cmd :: "string list" where
  "node_version_cmd = [''node'', ''--version'']"

definition node_check_cmd :: "path \<Rightarrow> string list" where
  "node_check_cmd temp_file = [''node'', ''--check'', temp_file]"

definition test_python_code :: "env \<Rightarrow> path \<Rightarrow> string \<Rightarrow> world \<times> tester \<Rightarrow> world \<times> tester" where
  "test_python_code e filepath code wt =
     (case wt of (w, t) \<Rightarrow>
        if has_placeholder code then (w, t)
        else (let temp_file = mktemp e ''.py'' w;
                  w1 = write_file temp_file code w
              in (case subprocess_run e (py_compile_cmd temp_file) w1 of
                    (Completed returncode stderr, w2) \<Rightarrow>
                      (unlink temp_file w2,
                       if returncode \<noteq> 0 then add_error filepath (python_syntax_msg stderr) t
                       else t)
                  | (TimeoutExpired, w2) \<Rightarrow>
                      (unlink temp_file w2, add_warning filepath ''Python code test timed out'' t)
                  | (Raised msg, w2) \<Rightarrow>
                      (unlink temp_file w2,
                       add_warning filepath (''Could not test Python code: '' @ msg) t))))"

definition test_javascript_code :: "env \<Rightarrow> path \<Rightarrow> string \<Rightarrow> world \<times> tester \<Rightarrow> world \<times> tester" where
  "test_javascript_code e filepath code wt =
     (case wt of (w, t) \<Rightarrow>
        if has_placeholder code then (w, t)
        else (case subprocess_run e node_version_cmd w of
                (TimeoutExpired, w0) \<Rightarrow> (w0, t)
              | (Raised msg, w0) \<Rightarrow> (w0, t)
              | (Completed rc0 err0, w0) \<Rightarrow>
                  (let temp_file = mktemp e ''.js'' w0;
                       w1 = write_file temp_file code w0
                   in (case subprocess_run e (node_check_cmd temp_file) w1 of
                         (Completed returncode stderr, w2) \<Rightarrow>
                           (unlink temp_file w2,
                            if returncode \<noteq> 0
                            then add_error filepath (javascript_syntax_msg stderr) t
                            else t)
                       | (TimeoutExpired, w2) \<Rightarrow>
                           (unlink temp_file w2,
                            add_warning filepath ''JavaScript code test timed out'' t)
                       | (Raised msg, w2) \<Rightarrow>
                           (unlink temp_file w2,
                            add_warning filepath (''Could not test JavaScript code: '' @ msg) t)))))"

fun bash_lines :: "path \<Rightarrow> string list \<Rightarrow> tester \<Rightarrow> tester" where
  "bash_lines filepath [] t = t"
| "bash_lines filepath (l # ls) t =
     (let line = strip l
      in if line = [] \<or> startswith line ''#'' then bash_lines filepath ls t
         else bash_lines filepath ls
                (if count_str [CHR 0x22] line mod 2 \<noteq> 0 \<or> count_str [CHR 0x27] line mod 2 \<noteq> 0
                 then add_warning filepath (''Bash code may have unmatched quotes: '' @ line) t
                 else t))"

definition test_bash_code :: "path \<Rightarrow> string \<Rightarrow> tester \<Rightarrow> tester" where
  "test_bash_code filepath code t =
     (if list_ex (\<lambda>cmd. contains cmd code)
           [''rm -rf'', ''dd if='', ''mkfs'', '':(){:|:&};:'']
      then t
      else if contains ''YOUR_'' code \<or> contains ''your-'' (lower code) then t
      else bash_lines filepath (split_on newline code) t)"

definition count_code_block :: "tester \<Rightarrow> tester" where
  \<comment> \<open>\<^verbatim>\<open>self.stats["code_blocks_tested"] += 1\<close>\<close>
  "count_code_block t =
     t\<lparr>stats := (stats t)\<lparr>code_blocks_tested := code_blocks_tested (stats t) + 1\<rparr>\<rparr>"

definition non_executable :: "string list" where
  "non_executable = [''text'', ''markdown'', ''json'', ''yaml'', ''yml'', ''output'']"

fun test_code_block :: "env \<Rightarrow> path \<Rightarrow> string \<times> string \<Rightarrow> world \<times> tester \<Rightarrow> world \<times> tester" where
  \<comment> \<open>the body of the loop of \<^verbatim>\<open>_test_code_examples\<close>\<close>
  "test_code_block e filepath (lang0, code) (w, t) =
     (let lang = lower lang0
      in if lang \<in> set non_executable then (w, t)
         else (let t1 = count_code_block t
               in if lang = ''python'' then test_python_code e filepath code (w, t1)
                  else if lang \<in> set [''javascript'', ''js'']
                  then test_javascript_code e filepath code (w, t1)
                  else if lang = ''bash'' then (w, test_bash_code filepath code t1)
                  else (w, t1)))"

fun test_each_block ::
  "env \<Rightarrow> path \<Rightarrow> (string \<times> string) list \<Rightarrow> world \<times> tester \<Rightarrow> world \<times> tester" where
  "test_each_block e filepath [] wt = wt"
| "test_each_block e filepath (b # bs) wt =
     test_each_block e filepath bs (test_code_block e filepath b wt)"

definition test_code_examples :: "env \<Rightarrow> path \<Rightarrow> string \<Rightarrow> world \<times> tester \<Rightarrow> world \<times> tester" where
  "test_code_examples e filepath content wt =
     test_each_block e filepath (findall match_code_block content) wt"


section \<open>The run\<close>

definition count_file :: "tester \<Rightarrow> tester" where
  \<comment> \<open>\<^verbatim>\<open>self.stats["files_checked"] += 1\<close>\<close>
  "count_file t = t\<lparr>stats := (stats t)\<lparr>files_checked := files_checked (stats t) + 1\<rparr>\<rparr>"

fun test_file ::
  "env \<Rightarrow> bool \<Rightarrow> bool \<Rightarrow> path \<Rightarrow> world \<times> tester \<Rightarrow> uncaught option \<times> world \<times> tester" where
  \<comment> \<open>the body of the loop of \<^verbatim>\<open>run_all_tests\<close>: the exception that ends it, if one is
      raised, and the world and the tester as they are then\<close>
  "test_file e execute_examples fix md_file (w, t) =
     (if contains ''node_modules'' md_file \<or> contains ''.git'' md_file then (None, w, t)
      else (let t1 = count_file t
            in (case read_text e w md_file of
                  Inl x \<Rightarrow> (Some x, w, t1)
                | Inr content \<Rightarrow>
                    (let t2 = check_markdown_syntax md_file content t1
                     in (case check_links e w md_file content fix t2 of
                           (Some x, t3) \<Rightarrow> (Some x, w, t3)
                         | (None, t3) \<Rightarrow>
                             (let t4 = check_common_issues md_file content t3
                              in if execute_examples
                                 then (None, test_code_examples e md_file content (w, t4))
                                 else (None, w, t4)))))))"

fun test_each_file ::
  "env \<Rightarrow> bool \<Rightarrow> bool \<Rightarrow> path list \<Rightarrow> world \<times> tester \<Rightarrow> uncaught option \<times> world \<times> tester" where
  "test_each_file e execute_examples fix [] wt = (None, wt)"
| "test_each_file e execute_examples fix (f # fs) wt =
     (case test_file e execute_examples fix f wt of
        (Some x, wt') \<Rightarrow> (Some x, wt')
      | (None, wt') \<Rightarrow> test_each_file e execute_examples fix fs wt')"

definition run_all_tests ::
  "env \<Rightarrow> bool \<Rightarrow> bool \<Rightarrow> world \<times> tester \<Rightarrow> (uncaught + bool) \<times> world \<times> tester" where
  \<comment> \<open>the returned flag or the exception that ends the method, and the world and the
      tester as the method leaves them\<close>
  "run_all_tests e execute_examples fix wt =
     (case wt of (w, t) \<Rightarrow>
        (let md_files = glob_md e (docs_path t) w
         in if md_files = [] then (Inr False, w, t)
            else (case test_each_file e execute_examples fix md_files (w, t) of
                    (Some x, w', t') \<Rightarrow> (Inl x, w', t')
                  | (None, w', t') \<Rightarrow> (Inr (error_count (stats t') = 0), w', t'))))"


section \<open>External links and the command line\<close>

definition match_external_link :: "string \<Rightarrow> ((string \<times> string) \<times> string) option" where
  \<comment> \<open>\<^verbatim>\<open>\[([^\]]+)\]\((https?://[^\)]+)\)\<close>\<close>
  "match_external_link s =
     (case match_label s of
        None \<Rightarrow> None
      | Some (t, s3) \<Rightarrow>
          (case s3 of
             [] \<Rightarrow> None
           | p # s4 \<Rightarrow>
               if p \<noteq> CHR ''('' \<or> \<not> startswith s4 ''http'' then None
               else (let s5 = drop 4 s4;
                         s6 = (if startswith s5 ''s'' then drop 1 s5 else s5)
                     in if \<not> startswith s6 ''://'' then None
                        else (let s7 = drop 3 s6;
                                  x = takeWhile (\<lambda>c. c \<noteq> CHR '')'') s7;
                                  s8 = dropWhile (\<lambda>c. c \<noteq> CHR '')'') s7
                              in if x = [] then None
                                 else (case s8 of
                                         [] \<Rightarrow> None
                                       | q # rest \<Rightarrow>
                                           Some ((t, take (length s4 - length s8) s4), rest))))))"

type_synonym broken_link = "path \<times> string \<times> string"

fun check_urls :: "env \<Rightarrow> path \<Rightarrow> string list \<Rightarrow> broken_link list \<Rightarrow> uncaught + broken_link list" where
  \<comment> \<open>the loop over the links of one file; \<open>broken_links\<close> is the list built so far\<close>
  "check_urls e md_file [] broken_links = Inr broken_links"
| "check_urls e md_file (url # urls) broken_links =
     (case requests_head e url of
        Response status_code \<Rightarrow>
          check_urls e md_file urls
            (if status_code \<ge> 400
             then broken_links @ [(md_file, url, ''HTTP '' @ str_nat status_code)]
             else broken_links)
      | RequestException msg \<Rightarrow> check_urls e md_file urls (broken_links @ [(md_file, url, msg)])
      | OtherException msg \<Rightarrow> Inl (Uncaught msg))"

fun check_external_files ::
  "env \<Rightarrow> world \<Rightarrow> path list \<Rightarrow> broken_link list \<Rightarrow> uncaught + broken_link list" where
  \<comment> \<open>the loop over the files\<close>
  "check_external_files e w [] broken_links = Inr broken_links"
| "check_external_files e w (md_file # fs) broken_links =
     (if contains ''node_modules'' md_file then check_external_files e w fs broken_links
      else (case read_text e w md_file of
              Inl x \<Rightarrow> Inl x
            | Inr content \<Rightarrow>
                (case check_urls e md_file (map snd (findall match_external_link content))
                        broken_links of
                   Inl x \<Rightarrow> Inl x
                 | Inr broken_links' \<Rightarrow> check_external_files e w fs broken_links')))"

definition check_external_links :: "env \<Rightarrow> path \<Rightarrow> world \<Rightarrow> uncaught + broken_link list" where
  \<comment> \<open>\<^verbatim>\<open>LinkChecker.check_external_links\<close>\<close>
  "check_external_links e root w =
     (if \<not> requests_installed e then Inr []
      else check_external_files e w (glob_md e root w) [])"

record args =
  path :: path
  execute_examples :: bool
  check_links_flag :: bool  \<comment> \<open>\<^verbatim>\<open>--check-links\<close>\<close>
  fix_flag :: bool  \<comment> \<open>\<^verbatim>\<open>--fix\<close>\<close>
  all_flag :: bool  \<comment> \<open>\<^verbatim>\<open>--all\<close>\<close>

definition main :: "env \<Rightarrow> args \<Rightarrow> world \<Rightarrow> int \<times> world \<times> tester option" where
  \<comment> \<open>the exit status of the process, the world at exit and the tester, if one was made;
      an exception that nothing catches ends the process with status 1\<close>
  "main e a w =
     (let docs = posix_path (path a)
      in (case py_exists e w docs of
            Inl x \<Rightarrow> (1, w, None)
          | Inr found \<Rightarrow>
              if \<not> found then (1, w, None)
              else (let execute = (execute_examples a \<or> all_flag a);
                        links = (check_links_flag a \<or> all_flag a)
                    in (case run_all_tests e execute (fix_flag a) (w, init_tester docs) of
                          (Inl x, w', t') \<Rightarrow> (1, w', Some t')
                        | (Inr success, w', t') \<Rightarrow>
                            if links
                            then (case check_external_links e docs w' of
                                    Inl x \<Rightarrow> (1, w', Some t')
                                  | Inr broken \<Rightarrow>
                                      ((if broken \<noteq> [] then 1 else if success then 0 else 1),
                                       w', Some t'))
                            else ((if success then 0 else 1), w', Some t')))))"


section \<open>The outcomes a block's check can meet\<close>

text \<open>
  Names for what the environment answers while one code block is checked: the outcome of
  the \<^verbatim>\<open>py_compile\<close> subprocess on the temporary file of a Python block, the outcome of
  \<^verbatim>\<open>node --version\<close>, the world after it, and the outcome of \<^verbatim>\<open>node --check\<close> on the
  temporary file of a JavaScript block.
\<close>

abbreviation py_outcome :: "env \<Rightarrow> string \<Rightarrow> world \<Rightarrow> proc_outcome" where
  "py_outcome e code w \<equiv>
     fst (subprocess_run e (py_compile_cmd (mktemp e ''.py'' w))
            (write_file (mktemp e ''.py'' w) code w))"

abbreviation node_outcome :: "env \<Rightarrow> world \<Rightarrow> proc_outcome" where
  "node_outcome e w \<equiv> fst (subprocess_run e node_version_cmd w)"

abbreviation after_node :: "env \<Rightarrow> world \<Rightarrow> world" where
  "after_node e w \<equiv> snd (subprocess_run e node_version_cmd w)"

abbreviation js_outcome :: "env \<Rightarrow> string \<Rightarrow> world \<Rightarrow> proc_outcome" where
  "js_outcome e code w \<equiv>
     fst (subprocess_run e (node_check_cmd (mktemp e ''.js'' (after_node e w)))
            (write_file (mktemp e ''.js'' (after_node e w)) code (after_node e w)))"


section \<open>Example inputs\<close>

text \<open>
  Concrete worlds and environments, on which the theorems below are evaluated: an empty
  file system, an environment whose interpreters answer as \<open>run\<close> says, whose \<^verbatim>\<open>glob\<close>
  finds the documents \<open>docs\<close> and reads their texts, and in which no call of the file
  system raises, and some ways for the interpreters to answer.
\<close>

definition empty_world :: world where
  "empty_world = \<lparr>files = Map.empty, spawned = []\<rparr>"

definition example_env ::
  "(string list \<Rightarrow> world \<Rightarrow> proc_outcome \<times> (path \<rightharpoonup> string)) \<Rightarrow> (path \<times> string) list \<Rightarrow> env" where
  "example_env run docs =
     \<lparr>glob_md = (\<lambda>root w. map fst docs),
      read_text = (\<lambda>w p. case map_of docs p of
                            Some text \<Rightarrow> Inr text
                          | None \<Rightarrow> Inl (Uncaught ''No such file or directory'')),
      resolve = (\<lambda>w p. Inr p), stat_error = (\<lambda>w p. None),
      mktemp = (\<lambda>suffix w. ''/tmp/tmpdoc'' @ suffix), run_proc = run,
      requests_installed = True, requests_head = (\<lambda>url. Response 404)\<rparr>"

definition run_ok :: "string list \<Rightarrow> world \<Rightarrow> proc_outcome \<times> (path \<rightharpoonup> string)" where
  "run_ok argv w = (Completed 0 [], files w)"

definition run_syntax_error :: "string list \<Rightarrow> world \<Rightarrow> proc_outcome \<times> (path \<rightharpoonup> string)" where
  \<comment> \<open>\<^verbatim>\<open>node --version\<close> works, every check fails\<close>
  "run_syntax_error argv w =
     (if argv = node_version_cmd then (Completed 0 [], files w)
      else (Completed 1 ''SyntaxError: invalid syntax'', files w))"

definition run_timeout :: "string list \<Rightarrow> world \<Rightarrow> proc_outcome \<times> (path \<rightharpoonup> string)" where
  \<comment> \<open>\<^verbatim>\<open>node --version\<close> works, every check runs out of time\<close>
  "run_timeout argv w =
     (if argv = node_version_cmd then (Completed 0 [], files w)
      else (TimeoutExpired, files w))"

definition run_raises :: "string list \<Rightarrow> world \<Rightarrow> proc_outcome \<times> (path \<rightharpoonup> string)" where
  \<comment> \<open>no interpreter is installed\<close>
  "run_raises argv w = (Raised ''No such file or directory'', files w)"


definition two_titles :: string where
  "two_titles = ''# Guide'' @ [newline] @ ''text'' @ [newline] @ ''# Second title''"


definition broken_code :: string where
  "broken_code = ''print(1''"

definition placeholder_code :: string where
  "placeholder_code = ''url = Your-Host(''"


definition guide_text :: string where
  "guide_text =
     ''# Guide'' @ [newline]
     @ ''See [the notes](./missing.md), [the top](#top), [the intro](intro.md#start)''
     @ '' and [the reference](/api/ref.md).''"

definition docs_world :: world where
  \<comment> \<open>the root \<^verbatim>\<open>docs\<close> with \<^verbatim>\<open>guide.md\<close>, \<^verbatim>\<open>intro.md\<close> and \<^verbatim>\<open>api/ref.md\<close>\<close>
  "docs_world =
     \<lparr>files = [''docs'' \<mapsto> [], ''docs/guide.md'' \<mapsto> guide_text, ''docs/intro.md'' \<mapsto> ''# Intro'',
               ''docs/api'' \<mapsto> [], ''docs/api/ref.md'' \<mapsto> ''# Reference''],
      spawned = []\<rparr>"




definition plain_args :: args where
  \<comment> \<open>\<^verbatim>\<open>--path docs\<close> and no other option\<close>
  "plain_args =
     \<lparr>path = ''docs'', execute_examples = False, check_links_flag = False, fix_flag = False,
      all_flag = False\<rparr>"








section \<open>Properties of the scanners\<close>

text \<open>
  Every pattern of the source consumes at least one character, so \<open>findall\<close> always
  continues behind a match, as \<^verbatim>\<open>re.findall\<close> does.
\<close>

lemma dropWhile_Cons_shorter: "dropWhile P xs = q # r \<Longrightarrow> length r < length xs"
proof -
  assume d: "dropWhile P xs = q # r"
  have "length (dropWhile P xs) \<le> length xs"
    by (rule length_dropWhile_le)
  with d show ?thesis by simp
qed

lemma match_label_shorter: "match_label s = Some (t, r) \<Longrightarrow> length r < length s"
  by (cases s)
    (auto simp add: match_label_def Let_def split: if_splits list.splits
      dest!: dropWhile_Cons_shorter)

lemma match_empty_link_shorter:
  "match_empty_link s = Some (t, r) \<Longrightarrow> length r < length s"
  by (auto simp add: match_empty_link_def split: option.splits list.splits if_splits
      dest!: dropWhile_Cons_shorter match_label_shorter)

lemma match_link_shorter: "match_link s = Some (x, r) \<Longrightarrow> length r < length s"
  by (auto simp add: match_link_def Let_def split: option.splits list.splits if_splits
      dest!: dropWhile_Cons_shorter match_label_shorter)

lemma match_external_link_shorter:
  "match_external_link s = Some (x, r) \<Longrightarrow> length r < length s"
  by (auto simp add: match_external_link_def Let_def split: option.splits list.splits if_splits
      dest!: dropWhile_Cons_shorter match_label_shorter)

lemma match_todo_shorter: "match_todo s = Some (x, r) \<Longrightarrow> length r < length s"
  by (cases s) (auto simp add: match_todo_def startswith_def split: if_splits)

lemma split_fence_shorter: "split_fence s = Some (b, r) \<Longrightarrow> length r < length s"
proof (induction s arbitrary: b r)
  case Nil
  then show ?case by simp
next
  case (Cons c cs)
  then show ?case
    by (auto split: if_splits option.splits)
qed

lemma match_code_block_shorter:
  "match_code_block s = Some (x, r) \<Longrightarrow> length r < length s"
  by (auto simp add: match_code_block_def Let_def split: if_splits list.splits option.splits
      dest!: dropWhile_Cons_shorter split_fence_shorter)

lemma findall_step:
  assumes "\<And>x r. m s = Some (x, r) \<Longrightarrow> length r < length s"
  shows "findall m s =
           (if s = [] then []
            else (case m s of None \<Rightarrow> findall m (tl s) | Some (x, rest) \<Rightarrow> x # findall m rest))"
  using assms by (subst findall.simps) (auto split: option.splits)


section \<open>Properties of paths\<close>

text \<open>Making a path of the text of a path gives that path again.\<close>

lemma split_on_no_sep: "d \<notin> set x \<Longrightarrow> split_on d x = [x]"
  by (induction x) auto

lemma split_on_append_sep:
  "d \<notin> set x \<Longrightarrow> split_on d (x @ d # rest) = x # split_on d rest"
  by (induction x) (auto split: list.splits)

lemma split_on_join:
  "parts \<noteq> [] \<Longrightarrow> \<forall>p \<in> set parts. d \<notin> set p \<Longrightarrow> split_on d (join_str [d] parts) = parts"
proof (induction parts)
  case Nil
  then show ?case by simp
next
  case (Cons x xs)
  show ?case
  proof (cases xs)
    case Nil
    with Cons.prems show ?thesis by (simp add: split_on_no_sep)
  next
    case (Cons y ys)
    with Cons.IH Cons.prems have "split_on d (join_str [d] (y # ys)) = y # ys"
      by simp
    with Cons Cons.prems show ?thesis
      using split_on_append_sep [of d x "join_str [d] (y # ys)"] by simp
  qed
qed

lemma split_on_parts: "p \<in> set (split_on d s) \<Longrightarrow> d \<notin> set p"
proof (induction s arbitrary: p)
  case Nil
  then show ?case by simp
next
  case (Cons c cs)
  then show ?case
    by (cases "split_on d cs") (auto split: if_splits)
qed

lemma posix_path_idem: "posix_path (posix_path s) = posix_path s"
proof -
  define root where "root = (if startswith s ''//'' \<and> \<not> startswith s ''///'' then ''//''
                  else if startswith s ''/'' then ''/'' else [])"
  define parts where "parts = filter (\<lambda>x. x \<noteq> [] \<and> x \<noteq> ''.'') (split_on (CHR ''/'') s)"
  have pp: "posix_path s = (if root = [] \<and> parts = [] then ''.'' else root @ join_str ''/'' parts)"
    by (simp add: posix_path_def root_def parts_def Let_def)
  have nosep: "\<forall>p \<in> set parts. CHR ''/'' \<notin> set p"
    by (auto simp add: parts_def dest: split_on_parts)
  have nonempty: "\<forall>p \<in> set parts. p \<noteq> [] \<and> p \<noteq> ''.''"
    by (simp add: parts_def)
  have roots: "root = [] \<or> root = ''/'' \<or> root = ''//''"
    by (simp add: root_def)
  show ?thesis
  proof (cases "parts = []")
    case True
    with roots show ?thesis
      unfolding pp by (auto simp add: posix_path_def startswith_def)
  next
    case False
    then obtain p ps where parts: "parts = p # ps" by (cases parts) auto
    with nonempty nosep obtain c cs where p: "p = c # cs" and c: "c \<noteq> CHR ''/''"
      by (cases p) auto
    have split: "split_on (CHR ''/'') (join_str ''/'' parts) = parts"
      using split_on_join [of parts "CHR ''/''"] False nosep by simp
    obtain rest where j: "join_str ''/'' parts = c # rest"
      unfolding parts p by (cases ps) simp_all
    have s0: "split_on (CHR ''/'') (c # rest) = parts"
      using split j by simp
    have keep: "filter (\<lambda>x. x \<noteq> [] \<and> x \<noteq> ''.'') parts = parts"
      using nonempty by (simp add: filter_id_conv)
    have again: "posix_path (root @ c # rest) = root @ c # rest"
      using roots
    proof (elim disjE)
      assume r: "root = []"
      show ?thesis
        unfolding r using c False j keep s0
        by (simp add: posix_path_def Let_def startswith_def del: split_on.simps)
    next
      assume r: "root = ''/''"
      have s1: "split_on (CHR ''/'') (CHR ''/'' # c # rest) = [] # parts"
        using s0 by simp
      show ?thesis
        unfolding r using c False j keep s1
        by (simp add: posix_path_def Let_def startswith_def del: split_on.simps)
    next
      assume r: "root = ''//''"
      have s1: "split_on (CHR ''/'') (CHR ''/'' # CHR ''/'' # c # rest) = [] # [] # parts"
        using s0 by simp
      show ?thesis
        unfolding r using c False j keep s1
        by (simp add: posix_path_def Let_def startswith_def del: split_on.simps)
    qed
    show ?thesis
      unfolding pp using False again j by simp
  qed
qed


section \<open>Properties of the markdown syntax checks\<close>

lemma heading_hierarchy_errors:
  "errors (heading_hierarchy filepath i prev_level ls t) = errors t"
  by (induction ls arbitrary: i prev_level t) (simp_all add: Let_def add_warning_def)

lemma empty_links_msg_not_unclosed [simp]: "(CHR ''E'' # x = unclosed_msg) = False"
  by (simp add: unclosed_msg_def)

text \<open>
  Claim C6. The fence-parity check looks at \<^verbatim>\<open>content.count\<close> of the triple-fence marker
  only: whatever the tester held before, checking a document adds exactly one
  "unclosed code block" error when that count is odd and none when it is even.
\<close>

theorem fence_parity_finding:
  "filter (\<lambda>f. snd f = unclosed_msg) (errors (check_markdown_syntax filepath content t)) =
   filter (\<lambda>f. snd f = unclosed_msg) (errors t)
     @ (if odd (count_str fence content) then [(filepath, unclosed_msg)] else [])"
  by (simp add: check_markdown_syntax_def Let_def heading_hierarchy_errors add_error_def
      add_warning_def odd_iff_mod_2_eq_one)

theorem fence_parity_finding_witness:
  "filter (\<lambda>f. snd f = unclosed_msg)
     (errors (check_markdown_syntax ''a.md'' (fence @ ''python'' @ [newline] @ ''x = 1'')
        (init_tester ''docs''))) = [(''a.md'', unclosed_msg)]
   \<and> filter (\<lambda>f. snd f = unclosed_msg)
     (errors (check_markdown_syntax ''a.md'' (fence @ ''x = 1'' @ [newline] @ fence)
        (init_tester ''docs''))) = []"
proof -
  have odd1: "count_str fence (fence @ ''python'' @ [newline] @ ''x = 1'') = 1"
    by code_simp
  have even2: "count_str fence (fence @ ''x = 1'' @ [newline] @ fence) = 2"
    by code_simp
  show ?thesis
    using fence_parity_finding [of "''a.md''" "fence @ ''python'' @ [newline] @ ''x = 1''"
        "init_tester ''docs''"]
      fence_parity_finding [of "''a.md''" "fence @ ''x = 1'' @ [newline] @ fence"
        "init_tester ''docs''"]
    unfolding odd1 even2 by (simp add: init_tester_def)
qed

lemma skipped_level_msg_not_multiple_h1 [simp]:
  "(skipped_level_msg i p l = multiple_h1_msg) = False"
  by (simp add: skipped_level_msg_def multiple_h1_msg_def)

lemma heading_hierarchy_h1_warnings:
  "filter (\<lambda>f. snd f = multiple_h1_msg) (warnings (heading_hierarchy filepath i prev_level ls t)) =
   filter (\<lambda>f. snd f = multiple_h1_msg) (warnings t)"
  by (induction ls arbitrary: i prev_level t) (simp_all add: Let_def add_warning_def)

lemma error_msgs_not_multiple_h1 [simp]:
  "(CHR ''E'' # x = multiple_h1_msg) = False" "(unclosed_msg = multiple_h1_msg) = False"
  by (simp_all add: unclosed_msg_def multiple_h1_msg_def)

lemma two_titles_count: "h1_count (split_on newline two_titles) = 2"
  by code_simp

lemma two_titles_check:
  "check_markdown_syntax ''guide.md'' two_titles (init_tester ''docs'') =
     add_warning ''guide.md'' multiple_h1_msg (init_tester ''docs'')"
  by code_simp

text \<open>
  Claim C4, as the code has it. A document with more than one level-1 heading line gets
  exactly one "multiple H1" finding however many such lines there are, and none
  otherwise; the finding goes to the warnings (\<^verbatim>\<open>_add_warning\<close>), never to the errors.
\<close>

theorem multiple_h1_finding:
  "filter (\<lambda>f. snd f = multiple_h1_msg) (warnings (check_markdown_syntax filepath content t)) =
     filter (\<lambda>f. snd f = multiple_h1_msg) (warnings t)
       @ (if 1 < h1_count (split_on newline content) then [(filepath, multiple_h1_msg)] else [])
   \<and> filter (\<lambda>f. snd f = multiple_h1_msg) (errors (check_markdown_syntax filepath content t)) =
     filter (\<lambda>f. snd f = multiple_h1_msg) (errors t)"
  by (simp add: check_markdown_syntax_def Let_def heading_hierarchy_errors
      heading_hierarchy_h1_warnings add_error_def add_warning_def)

theorem multiple_h1_finding_witness:
  "filter (\<lambda>f. snd f = multiple_h1_msg)
     (warnings (check_markdown_syntax ''guide.md'' two_titles (init_tester ''docs''))) =
     [(''guide.md'', multiple_h1_msg)]
   \<and> filter (\<lambda>f. snd f = multiple_h1_msg)
     (errors (check_markdown_syntax ''guide.md'' two_titles (init_tester ''docs''))) = []"
  using multiple_h1_finding [of "''guide.md''" two_titles "init_tester ''docs''"]
  unfolding two_titles_count by (simp add: init_tester_def)

text \<open>
  Claim C4 as stated asks for an Error finding. A document with two level-1 headings
  ends with an empty error list and one warning.
\<close>

theorem multiple_h1_error_counterexample:
  "1 < h1_count (split_on newline two_titles)
   \<and> errors (check_markdown_syntax ''guide.md'' two_titles (init_tester ''docs'')) = []
   \<and> warnings (check_markdown_syntax ''guide.md'' two_titles (init_tester ''docs'')) =
       [(''guide.md'', multiple_h1_msg)]"
  unfolding two_titles_check two_titles_count
  by (simp add: add_warning_def init_tester_def)

section \<open>Properties of the code-block checks\<close>

lemma python_findings:
  "\<not> has_placeholder code \<Longrightarrow>
   snd (test_python_code e filepath code (w, t)) =
     (case py_outcome e code w of
        Completed rc err \<Rightarrow> if rc \<noteq> 0 then add_error filepath (python_syntax_msg err) t else t
      | TimeoutExpired \<Rightarrow> add_warning filepath ''Python code test timed out'' t
      | Raised msg \<Rightarrow> add_warning filepath (''Could not test Python code: '' @ msg) t)"
  by (simp add: test_python_code_def Let_def split: prod.splits proc_outcome.splits)

lemma javascript_findings:
  "\<not> has_placeholder code \<Longrightarrow>
   snd (test_javascript_code e filepath code (w, t)) =
     (case node_outcome e w of
        Completed rc0 err0 \<Rightarrow>
          (case js_outcome e code w of
             Completed rc err \<Rightarrow>
               if rc \<noteq> 0 then add_error filepath (javascript_syntax_msg err) t else t
           | TimeoutExpired \<Rightarrow> add_warning filepath ''JavaScript code test timed out'' t
           | Raised msg \<Rightarrow> add_warning filepath (''Could not test JavaScript code: '' @ msg) t)
      | TimeoutExpired \<Rightarrow> t
      | Raised msg \<Rightarrow> t)"
  by (simp add: test_javascript_code_def Let_def split: prod.splits proc_outcome.splits)

lemma placeholder_skips:
  "has_placeholder code \<Longrightarrow> test_python_code e filepath code (w, t) = (w, t)"
  "has_placeholder code \<Longrightarrow> test_javascript_code e filepath code (w, t) = (w, t)"
  by (simp_all add: test_python_code_def test_javascript_code_def)

lemma broken_code_no_placeholder: "has_placeholder broken_code = False"
  by code_simp

lemma placeholder_code_has_placeholder: "has_placeholder placeholder_code = True"
  by code_simp

lemma example_py_timeout:
  "py_outcome (example_env run_timeout []) broken_code empty_world = TimeoutExpired"
  by code_simp

lemma example_py_error:
  "py_outcome (example_env run_syntax_error []) broken_code empty_world =
     Completed 1 ''SyntaxError: invalid syntax''"
  by code_simp

lemma example_node:
  "node_outcome (example_env run_timeout []) empty_world = Completed 0 []"
  "node_outcome (example_env run_syntax_error []) empty_world = Completed 0 []"
  by code_simp+

lemma example_js_timeout:
  "js_outcome (example_env run_timeout []) broken_code empty_world = TimeoutExpired"
  by code_simp

lemma example_js_error:
  "js_outcome (example_env run_syntax_error []) broken_code empty_world =
     Completed 1 ''SyntaxError: invalid syntax''"
  by code_simp

text \<open>
  Claim C1, as the code has it. For a Python or JavaScript block without a placeholder
  (and, for JavaScript, with \<^verbatim>\<open>node --version\<close> answering): a non-zero return code of the
  syntax check appends one finding to the errors, made of a fixed heading and the captured
  stderr, adds one to the error counter and changes nothing else of the tester; a timeout
  appends one finding to the warnings, adds one to the warning counter and changes nothing
  else, so the errors and their counter stay as they were. A skipped block (a placeholder,
  or \<^verbatim>\<open>node\<close> not answering) leaves the tester as it was.
\<close>

theorem syntax_check_findings:
  "(\<not> has_placeholder code \<longrightarrow>
      (\<forall>rc err. py_outcome e code w = Completed rc err \<and> rc \<noteq> 0 \<longrightarrow>
         snd (test_python_code e filepath code (w, t)) =
           t\<lparr>errors := errors t @ [(filepath, ''Python code syntax error:'' @ [newline] @ err)],
             stats := (stats t)\<lparr>error_count := error_count (stats t) + 1\<rparr>\<rparr>)
    \<and> (py_outcome e code w = TimeoutExpired \<longrightarrow>
         snd (test_python_code e filepath code (w, t)) =
           t\<lparr>warnings := warnings t @ [(filepath, ''Python code test timed out'')],
             stats := (stats t)\<lparr>warning_count := warning_count (stats t) + 1\<rparr>\<rparr>)
    \<and> (\<forall>rc0 err0. node_outcome e w = Completed rc0 err0 \<longrightarrow>
         (\<forall>rc err. js_outcome e code w = Completed rc err \<and> rc \<noteq> 0 \<longrightarrow>
            snd (test_javascript_code e filepath code (w, t)) =
              t\<lparr>errors :=
                  errors t @ [(filepath, ''JavaScript code syntax error:'' @ [newline] @ err)],
                stats := (stats t)\<lparr>error_count := error_count (stats t) + 1\<rparr>\<rparr>)
         \<and> (js_outcome e code w = TimeoutExpired \<longrightarrow>
            snd (test_javascript_code e filepath code (w, t)) =
              t\<lparr>warnings := warnings t @ [(filepath, ''JavaScript code test timed out'')],
                stats := (stats t)\<lparr>warning_count := warning_count (stats t) + 1\<rparr>\<rparr>))
    \<and> ((\<forall>rc0 err0. node_outcome e w \<noteq> Completed rc0 err0) \<longrightarrow>
         snd (test_javascript_code e filepath code (w, t)) = t))
   \<and> (has_placeholder code \<longrightarrow>
        snd (test_python_code e filepath code (w, t)) = t
        \<and> snd (test_javascript_code e filepath code (w, t)) = t)"
proof (intro conjI impI allI)
  assume np: "\<not> has_placeholder code"
  {
    fix rc err
    assume "py_outcome e code w = Completed rc err \<and> rc \<noteq> 0"
    then show "snd (test_python_code e filepath code (w, t)) =
           t\<lparr>errors := errors t @ [(filepath, ''Python code syntax error:'' @ [newline] @ err)],
             stats := (stats t)\<lparr>error_count := error_count (stats t) + 1\<rparr>\<rparr>"
      using python_findings [OF np, of e filepath w t]
      by (simp add: add_error_def python_syntax_msg_def)
  }
  {
    assume "py_outcome e code w = TimeoutExpired"
    then show "snd (test_python_code e filepath code (w, t)) =
           t\<lparr>warnings := warnings t @ [(filepath, ''Python code test timed out'')],
             stats := (stats t)\<lparr>warning_count := warning_count (stats t) + 1\<rparr>\<rparr>"
      using python_findings [OF np, of e filepath w t]
      by (simp add: add_warning_def)
  }
  {
    fix rc0 err0 rc err
    assume "node_outcome e w = Completed rc0 err0"
      and "js_outcome e code w = Completed rc err \<and> rc \<noteq> 0"
    then show "snd (test_javascript_code e filepath code (w, t)) =
              t\<lparr>errors :=
                  errors t @ [(filepath, ''JavaScript code syntax error:'' @ [newline] @ err)],
                stats := (stats t)\<lparr>error_count := error_count (stats t) + 1\<rparr>\<rparr>"
      using javascript_findings [OF np, of e filepath w t]
      by (simp add: add_error_def javascript_syntax_msg_def)
  }
  {
    fix rc0 err0
    assume "node_outcome e w = Completed rc0 err0"
      and "js_outcome e code w = TimeoutExpired"
    then show "snd (test_javascript_code e filepath code (w, t)) =
              t\<lparr>warnings := warnings t @ [(filepath, ''JavaScript code test timed out'')],
                stats := (stats t)\<lparr>warning_count := warning_count (stats t) + 1\<rparr>\<rparr>"
      using javascript_findings [OF np, of e filepath w t]
      by (simp add: add_warning_def)
  }
  {
    assume "\<forall>rc0 err0. node_outcome e w \<noteq> Completed rc0 err0"
    then show "snd (test_javascript_code e filepath code (w, t)) = t"
      using javascript_findings [OF np, of e filepath w t]
      by (cases "node_outcome e w") simp_all
  }
next
  assume "has_placeholder code"
  then show "snd (test_python_code e filepath code (w, t)) = t"
    and "snd (test_javascript_code e filepath code (w, t)) = t"
    by (simp_all add: placeholder_skips)
qed

theorem syntax_check_findings_witness:
  "snd (test_python_code (example_env run_syntax_error []) ''guide.md'' broken_code
      (empty_world, init_tester ''docs'')) =
     (init_tester ''docs'')
       \<lparr>errors := [(''guide.md'',
                     ''Python code syntax error:'' @ [newline] @ ''SyntaxError: invalid syntax'')],
        stats := \<lparr>files_checked = 0, links_checked = 0, code_blocks_tested = 0,
                  error_count = 1, warning_count = 0\<rparr>\<rparr>
   \<and> snd (test_python_code (example_env run_timeout []) ''guide.md'' broken_code
      (empty_world, init_tester ''docs'')) =
     (init_tester ''docs'')
       \<lparr>warnings := [(''guide.md'', ''Python code test timed out'')],
        stats := \<lparr>files_checked = 0, links_checked = 0, code_blocks_tested = 0,
                  error_count = 0, warning_count = 1\<rparr>\<rparr>
   \<and> snd (test_javascript_code (example_env run_syntax_error []) ''guide.md'' broken_code
      (empty_world, init_tester ''docs'')) =
     (init_tester ''docs'')
       \<lparr>errors := [(''guide.md'',
                     ''JavaScript code syntax error:'' @ [newline]
                       @ ''SyntaxError: invalid syntax'')],
        stats := \<lparr>files_checked = 0, links_checked = 0, code_blocks_tested = 0,
                  error_count = 1, warning_count = 0\<rparr>\<rparr>
   \<and> snd (test_javascript_code (example_env run_timeout []) ''guide.md'' broken_code
      (empty_world, init_tester ''docs'')) =
     (init_tester ''docs'')
       \<lparr>warnings := [(''guide.md'', ''JavaScript code test timed out'')],
        stats := \<lparr>files_checked = 0, links_checked = 0, code_blocks_tested = 0,
                  error_count = 0, warning_count = 1\<rparr>\<rparr>
   \<and> snd (test_javascript_code (example_env run_raises []) ''guide.md'' broken_code
      (empty_world, init_tester ''docs'')) = init_tester ''docs''
   \<and> snd (test_python_code (example_env run_syntax_error []) ''guide.md'' placeholder_code
      (empty_world, init_tester ''docs'')) = init_tester ''docs''"
proof -
  have raises: "\<forall>rc0 err0. node_outcome (example_env run_raises []) empty_world \<noteq> Completed rc0 err0"
    by (simp add: subprocess_run_def example_env_def run_raises_def)
  show ?thesis
    using syntax_check_findings [where code = broken_code and e = "example_env run_syntax_error []"
        and w = empty_world and filepath = "''guide.md''" and t = "init_tester ''docs''"]
      syntax_check_findings [where code = broken_code and e = "example_env run_timeout []"
        and w = empty_world and filepath = "''guide.md''" and t = "init_tester ''docs''"]
      syntax_check_findings [where code = broken_code and e = "example_env run_raises []"
        and w = empty_world and filepath = "''guide.md''" and t = "init_tester ''docs''"]
      syntax_check_findings [where code = placeholder_code
        and e = "example_env run_syntax_error []"
        and w = empty_world and filepath = "''guide.md''" and t = "init_tester ''docs''"]
      raises
    unfolding broken_code_no_placeholder placeholder_code_has_placeholder example_py_timeout
      example_py_error example_node example_js_timeout example_js_error
    by (simp add: init_tester_def)
qed

text \<open>
  Claim C1 as stated asks for an Error finding on a timeout. When the syntax check of a
  Python block runs out of time, the error list stays empty, the error counter stays at
  zero, and the finding is a warning.
\<close>

theorem timeout_error_counterexample:
  "py_outcome (example_env run_timeout []) broken_code empty_world = TimeoutExpired
   \<and> errors (snd (test_python_code (example_env run_timeout []) ''guide.md'' broken_code
        (empty_world, init_tester ''docs''))) = []
   \<and> error_count (stats (snd (test_python_code (example_env run_timeout []) ''guide.md''
        broken_code (empty_world, init_tester ''docs'')))) = 0
   \<and> warnings (snd (test_python_code (example_env run_timeout []) ''guide.md'' broken_code
        (empty_world, init_tester ''docs''))) = [(''guide.md'', ''Python code test timed out'')]"
proof -
  have np: "\<not> has_placeholder broken_code"
    by (simp add: broken_code_no_placeholder)
  show ?thesis
    using python_findings [OF np, of "example_env run_timeout []" "''guide.md''" empty_world
        "init_tester ''docs''"]
    unfolding example_py_timeout by (simp add: add_warning_def init_tester_def)
qed

text \<open>
  Claim C2. When a Python or JavaScript block is checked in a subprocess, the temporary
  file written for it does not exist in the world the checking function returns, whatever
  the subprocess answered (any return code, a timeout, another exception) and whatever it
  did to the file system.
\<close>

theorem temp_file_removed:
  "(\<not> has_placeholder code \<longrightarrow>
      \<not> path_exists (fst (test_python_code e filepath code (w, t))) (mktemp e ''.py'' w))
   \<and> (\<not> has_placeholder code \<and> (\<exists>rc0 err0. node_outcome e w = Completed rc0 err0) \<longrightarrow>
      \<not> path_exists (fst (test_javascript_code e filepath code (w, t)))
          (mktemp e ''.js'' (after_node e w)))"
  by (auto simp add: test_python_code_def test_javascript_code_def Let_def path_exists_def
      unlink_def split: prod.splits proc_outcome.splits)

theorem temp_file_removed_witness:
  "path_exists
     (write_file (mktemp (example_env run_timeout []) ''.py'' empty_world) broken_code empty_world)
     ''/tmp/tmpdoc.py''
   \<and> \<not> path_exists
     (fst (test_python_code (example_env run_timeout []) ''guide.md'' broken_code
        (empty_world, init_tester ''docs''))) ''/tmp/tmpdoc.py''
   \<and> \<not> path_exists
     (fst (test_python_code (example_env run_raises []) ''guide.md'' broken_code
        (empty_world, init_tester ''docs''))) ''/tmp/tmpdoc.py''
   \<and> \<not> path_exists
     (fst (test_javascript_code (example_env run_syntax_error []) ''guide.md'' broken_code
        (empty_world, init_tester ''docs''))) ''/tmp/tmpdoc.js''"
proof -
  have names: "mktemp (example_env run_timeout []) ''.py'' empty_world = ''/tmp/tmpdoc.py''"
    "mktemp (example_env run_raises []) ''.py'' empty_world = ''/tmp/tmpdoc.py''"
    "mktemp (example_env run_syntax_error []) ''.js''
       (after_node (example_env run_syntax_error []) empty_world) = ''/tmp/tmpdoc.js''"
    by (simp_all add: example_env_def)
  have written: "path_exists (write_file ''/tmp/tmpdoc.py'' broken_code empty_world) ''/tmp/tmpdoc.py''"
    by (simp add: path_exists_def write_file_def)
  show ?thesis
    using temp_file_removed [where code = broken_code and e = "example_env run_timeout []"
        and w = empty_world and filepath = "''guide.md''" and t = "init_tester ''docs''"]
      temp_file_removed [where code = broken_code and e = "example_env run_raises []"
        and w = empty_world and filepath = "''guide.md''" and t = "init_tester ''docs''"]
      temp_file_removed [where code = broken_code and e = "example_env run_syntax_error []"
        and w = empty_world and filepath = "''guide.md''" and t = "init_tester ''docs''"]
      written
    unfolding broken_code_no_placeholder example_node names
    by simp
qed

lemma contains_iff:
  "contains p s \<longleftrightarrow> (\<exists>i. i \<le> length s \<and> take (length p) (drop i s) = p)"
proof (induction s)
  case Nil
  then show ?case by auto
next
  case (Cons c cs)
  show ?case
  proof
    assume "contains p (c # cs)"
    then consider "startswith (c # cs) p" | "contains p cs" by auto
    then show "\<exists>i. i \<le> length (c # cs) \<and> take (length p) (drop i (c # cs)) = p"
    proof cases
      case 1
      then have "0 \<le> length (c # cs) \<and> take (length p) (drop 0 (c # cs)) = p"
        by (simp add: startswith_def)
      then show ?thesis by blast
    next
      case 2
      then obtain i where "i \<le> length cs" "take (length p) (drop i cs) = p"
        using Cons.IH by blast
      then have "Suc i \<le> length (c # cs) \<and> take (length p) (drop (Suc i) (c # cs)) = p"
        by simp
      then show ?thesis by blast
    qed
  next
    assume "\<exists>i. i \<le> length (c # cs) \<and> take (length p) (drop i (c # cs)) = p"
    then obtain i where i: "i \<le> length (c # cs)" "take (length p) (drop i (c # cs)) = p"
      by blast
    show "contains p (c # cs)"
    proof (cases i)
      case 0
      with i show ?thesis by (simp add: startswith_def)
    next
      case (Suc j)
      with i have "j \<le> length cs \<and> take (length p) (drop j cs) = p" by simp
      then show ?thesis using Cons.IH by auto
    qed
  qed
qed

lemma contains_lower_iff:
  "contains p (lower s) \<longleftrightarrow> (\<exists>i. i \<le> length s \<and> lower (take (length p) (drop i s)) = p)"
  by (simp add: contains_iff lower_def take_map drop_map)

text \<open>
  Claim C7. A block tagged python, javascript or js (in any case) whose body holds the
  token \<^verbatim>\<open>YOUR_API_KEY\<close>, the text \<^verbatim>\<open>your-\<close> in any mix of upper and lower case at some
  position \<open>i\<close>, or \<^verbatim>\<open>example.com\<close>, leaves the world as it was (no subprocess is
  started, no file is written) and adds no finding; only the counter of tested blocks
  moves. Nothing is assumed about what the interpreters would answer.
\<close>

theorem placeholder_block_never_run:
  assumes "contains ''YOUR_API_KEY'' code
           \<or> (\<exists>i. i \<le> length code \<and> lower (take 5 (drop i code)) = ''your-'')
           \<or> contains ''example.com'' code"
  shows "test_python_code e filepath code (w, t) = (w, t)
         \<and> test_javascript_code e filepath code (w, t) = (w, t)
         \<and> (lower lang = ''python'' \<or> lower lang = ''javascript'' \<or> lower lang = ''js'' \<longrightarrow>
              test_code_block e filepath (lang, code) (w, t) = (w, count_code_block t)
              \<and> spawned (fst (test_code_block e filepath (lang, code) (w, t))) = spawned w
              \<and> errors (snd (test_code_block e filepath (lang, code) (w, t))) = errors t
              \<and> warnings (snd (test_code_block e filepath (lang, code) (w, t))) = warnings t)"
proof -
  have len: "length ''your-'' = (5::nat)"
    by simp
  have "contains ''your-'' (lower code) \<longleftrightarrow>
        (\<exists>i. i \<le> length code \<and> lower (take 5 (drop i code)) = ''your-'')"
    using contains_lower_iff [of "''your-''" code] unfolding len .
  with assms have ph: "has_placeholder code"
    by (simp add: has_placeholder_def)
  have py: "test_python_code e filepath code (w, count_code_block t) = (w, count_code_block t)"
    and js: "test_javascript_code e filepath code (w, count_code_block t) = (w, count_code_block t)"
    using ph by (simp_all add: placeholder_skips)
  show ?thesis
    using ph py js
    by (auto simp add: placeholder_skips non_executable_def Let_def count_code_block_def)
qed

theorem placeholder_block_never_run_witness:
  "test_code_block (example_env run_syntax_error []) ''guide.md'' (''Python'', placeholder_code)
     (empty_world, init_tester ''docs'') = (empty_world, count_code_block (init_tester ''docs''))
   \<and> test_javascript_code (example_env run_syntax_error []) ''guide.md'' placeholder_code
     (empty_world, init_tester ''docs'') = (empty_world, init_tester ''docs'')"
proof -
  have pos: "6 \<le> length placeholder_code \<and> lower (take 5 (drop 6 placeholder_code)) = ''your-''"
    by code_simp
  then have hyp: "contains ''YOUR_API_KEY'' placeholder_code
           \<or> (\<exists>i. i \<le> length placeholder_code \<and> lower (take 5 (drop i placeholder_code)) = ''your-'')
           \<or> contains ''example.com'' placeholder_code"
    by blast
  have tag: "lower ''Python'' = ''python''"
    by code_simp
  show ?thesis
    using placeholder_block_never_run [OF hyp, of "example_env run_syntax_error []" "''guide.md''"
        empty_world "init_tester ''docs''" "''Python''"] tag
    by simp
qed

section \<open>Properties of the link checks\<close>


















section \<open>Properties of the statistics\<close>

lemma add_finding_blocks [simp]:
  "code_blocks_tested (stats (add_error filepath m t)) = code_blocks_tested (stats t)"
  "code_blocks_tested (stats (add_warning filepath m t)) = code_blocks_tested (stats t)"
  by (simp_all add: add_error_def add_warning_def)





lemma test_code_block_cases:
  "test_code_block e filepath (lang, code) (w, t) =
     (if lower lang \<in> set non_executable then (w, t)
      else if lower lang = ''python'' then test_python_code e filepath code (w, count_code_block t)
      else if lower lang = ''javascript'' \<or> lower lang = ''js''
      then test_javascript_code e filepath code (w, count_code_block t)
      else if lower lang = ''bash'' then (w, test_bash_code filepath code (count_code_block t))
      else (w, count_code_block t))"
  by (simp add: Let_def)

lemma count_code_block_blocks [simp]:
  "code_blocks_tested (stats (count_code_block t)) = code_blocks_tested (stats t) + 1"
  by (simp add: count_code_block_def)







lemma stats_le_refl [simp]: "stats_le a a"
  by (simp add: stats_le_def)

lemma step_grows [simp]:
  "stats_le a (stats t) \<Longrightarrow> stats_le a (stats (add_error filepath m t))"
  "stats_le a (stats t) \<Longrightarrow> stats_le a (stats (add_warning filepath m t))"
  "stats_le a (stats t) \<Longrightarrow> stats_le a (stats (count_file t))"
  "stats_le a (stats t) \<Longrightarrow> stats_le a (stats (count_link t))"
  "stats_le a (stats t) \<Longrightarrow> stats_le a (stats (count_code_block t))"
  by (simp_all add: stats_le_def add_error_def add_warning_def count_file_def count_link_def
      count_code_block_def)

lemma heading_hierarchy_grows:
  "stats_le a (stats t) \<Longrightarrow> stats_le a (stats (heading_hierarchy filepath i prev_level ls t))"
  by (induction ls arbitrary: i prev_level t) (simp_all add: Let_def)

lemma check_markdown_syntax_grows:
  "stats_le a (stats t) \<Longrightarrow> stats_le a (stats (check_markdown_syntax filepath content t))"
  by (simp add: check_markdown_syntax_def Let_def heading_hierarchy_grows)

lemma check_link_grows:
  "stats_le a (stats t) \<Longrightarrow> stats_le a (stats (snd (check_link e w filepath fix l t)))"
  by (cases l) (simp add: Let_def split: sum.splits)

lemma check_each_link_grows:
  "stats_le a (stats t) \<Longrightarrow> stats_le a (stats (snd (check_each_link e w filepath fix ls t)))"
proof (induction ls arbitrary: t)
  case Nil
  then show ?case by simp
next
  case (Cons l ls)
  obtain x t' where step: "check_link e w filepath fix l t = (x, t')"
    by (cases "check_link e w filepath fix l t")
  have "stats_le a (stats t')"
    using check_link_grows [OF Cons.prems, of e w filepath "fix" l] step by simp
  then show ?case
    using Cons.IH [of t'] step by (cases x) simp_all
qed

lemma check_links_grows:
  "stats_le a (stats t) \<Longrightarrow> stats_le a (stats (snd (check_links e w filepath content fix t)))"
  by (simp add: check_links_def check_each_link_grows)

lemma long_lines_grows:
  "stats_le a (stats t) \<Longrightarrow> stats_le a (stats (long_lines filepath i in_code ls t))"
  by (induction ls arbitrary: i in_code t) simp_all

lemma common_typos_grows:
  "stats_le a (stats t) \<Longrightarrow> stats_le a (stats (common_typos filepath content ws t))"
  by (induction ws arbitrary: t) simp_all

lemma check_common_issues_grows:
  "stats_le a (stats t) \<Longrightarrow> stats_le a (stats (check_common_issues filepath content t))"
  by (simp add: check_common_issues_def Let_def long_lines_grows common_typos_grows)

lemma test_python_code_grows:
  "stats_le a (stats t) \<Longrightarrow> stats_le a (stats (snd (test_python_code e filepath code (w, t))))"
  by (simp add: test_python_code_def Let_def split: prod.splits proc_outcome.splits)

lemma test_javascript_code_grows:
  "stats_le a (stats t) \<Longrightarrow> stats_le a (stats (snd (test_javascript_code e filepath code (w, t))))"
  by (simp add: test_javascript_code_def Let_def split: prod.splits proc_outcome.splits)

lemma bash_lines_grows:
  "stats_le a (stats t) \<Longrightarrow> stats_le a (stats (bash_lines filepath ls t))"
  by (induction ls arbitrary: t) (simp_all add: Let_def)

lemma test_bash_code_grows:
  "stats_le a (stats t) \<Longrightarrow> stats_le a (stats (test_bash_code filepath code t))"
  by (simp add: test_bash_code_def bash_lines_grows)

lemma test_code_block_grows:
  "stats_le a (stats (snd wt)) \<Longrightarrow> stats_le a (stats (snd (test_code_block e filepath b wt)))"
proof -
  obtain lang code where b: "b = (lang, code)" by (cases b)
  obtain w t where wt: "wt = (w, t)" by (cases wt)
  assume "stats_le a (stats (snd wt))"
  then show ?thesis
    unfolding b wt test_code_block_cases
    by (simp add: test_python_code_grows test_javascript_code_grows test_bash_code_grows)
qed

lemma test_each_block_grows:
  "stats_le a (stats (snd wt)) \<Longrightarrow> stats_le a (stats (snd (test_each_block e filepath bs wt)))"
  by (induction bs arbitrary: wt) (simp_all add: test_code_block_grows)

lemma test_code_examples_grows:
  "stats_le a (stats (snd wt)) \<Longrightarrow> stats_le a (stats (snd (test_code_examples e filepath content wt)))"
  by (simp add: test_code_examples_def test_each_block_grows)

lemma test_file_grows:
  "stats_le a (stats (snd wt)) \<Longrightarrow> stats_le a (stats (snd (snd (test_file e ex fix f wt))))"
proof -
  obtain w t where wt: "wt = (w, t)" by (cases wt)
  assume "stats_le a (stats (snd wt))"
  then have a: "stats_le a (stats t)"
    by (simp add: wt)
  show ?thesis
  proof (cases "contains ''node_modules'' f \<or> contains ''.git'' f")
    case True
    with a show ?thesis by (simp add: wt)
  next
    case False
    show ?thesis
    proof (cases "read_text e w f")
      case (Inl x)
      with a False show ?thesis by (simp add: wt)
    next
      case (Inr content)
      obtain x t3 where links:
        "check_links e w f content fix (check_markdown_syntax f content (count_file t)) = (x, t3)"
        by (cases "check_links e w f content fix (check_markdown_syntax f content (count_file t))")
      have "stats_le a (stats (snd (check_links e w f content fix
                 (check_markdown_syntax f content (count_file t)))))"
        using a by (simp add: check_links_grows check_markdown_syntax_grows)
      then have t3: "stats_le a (stats t3)"
        by (simp add: links)
      then have t4: "stats_le a (stats (check_common_issues f content t3))"
        by (rule check_common_issues_grows)
      have t5: "stats_le a (stats (snd (test_code_examples e f content
                  (w, check_common_issues f content t3))))"
        using t4 by (intro test_code_examples_grows) simp
      show ?thesis
        using False Inr links t3 t4 t5
        by (cases x) (simp_all add: wt Let_def)
    qed
  qed
qed

lemma test_each_file_grows:
  "stats_le a (stats (snd wt)) \<Longrightarrow> stats_le a (stats (snd (snd (test_each_file e ex fix fs wt))))"
proof (induction fs arbitrary: wt)
  case Nil
  then show ?case by simp
next
  case (Cons f fs)
  obtain x wt' where step: "test_file e ex fix f wt = (x, wt')"
    by (cases "test_file e ex fix f wt")
  have "stats_le a (stats (snd wt'))"
    using test_file_grows [OF Cons.prems, of e ex "fix" f] step by simp
  then show ?case
    using Cons.IH [of wt'] step by (cases x) simp_all
qed

lemma run_all_tests_grows:
  "stats_le (stats t) (stats (snd (snd (run_all_tests e ex fix (w, t)))))"
proof (cases "glob_md e (docs_path t) w = []")
  case True
  then show ?thesis by (simp add: run_all_tests_def)
next
  case False
  obtain x w' t' where r:
    "test_each_file e ex fix (glob_md e (docs_path t) w) (w, t) = (x, w', t')"
    by (cases "test_each_file e ex fix (glob_md e (docs_path t) w) (w, t)") auto
  have "stats_le (stats t)
          (stats (snd (snd (test_each_file e ex fix (glob_md e (docs_path t) w) (w, t)))))"
    by (rule test_each_file_grows) simp
  with False r show ?thesis
    by (cases x) (simp_all add: run_all_tests_def)
qed

text \<open>
  Claim C9. Over a run that starts from any tester, none of the five counters ends below
  where it started, whether the run returns or an exception ends it; and each of the five
  operations that write a counter adds exactly one to it and leaves the other four as they
  were.
\<close>

theorem counters_never_decrease:
  "(let s = stats t; s' = stats (snd (snd (run_all_tests e execute fix (w, t))))
    in files_checked s \<le> files_checked s' \<and> links_checked s \<le> links_checked s'
       \<and> code_blocks_tested s \<le> code_blocks_tested s' \<and> error_count s \<le> error_count s'
       \<and> warning_count s \<le> warning_count s')
   \<and> stats (add_error filepath m t) = (stats t)\<lparr>error_count := error_count (stats t) + 1\<rparr>
   \<and> stats (add_warning filepath m t) = (stats t)\<lparr>warning_count := warning_count (stats t) + 1\<rparr>
   \<and> stats (count_file t) = (stats t)\<lparr>files_checked := files_checked (stats t) + 1\<rparr>
   \<and> stats (count_link t) = (stats t)\<lparr>links_checked := links_checked (stats t) + 1\<rparr>
   \<and> stats (count_code_block t) =
       (stats t)\<lparr>code_blocks_tested := code_blocks_tested (stats t) + 1\<rparr>"
  using run_all_tests_grows [of t e execute "fix" w]
  by (simp add: stats_le_def Let_def add_error_def add_warning_def count_file_def count_link_def
      count_code_block_def)

theorem counters_never_decrease_witness:
  "(let s = stats (init_tester ''docs'');
        s' = stats (snd (snd (run_all_tests (example_env run_ok [(''docs/guide.md'', guide_text)])
                                False False (docs_world, init_tester ''docs''))))
    in files_checked s \<le> files_checked s' \<and> links_checked s \<le> links_checked s'
       \<and> code_blocks_tested s \<le> code_blocks_tested s' \<and> error_count s \<le> error_count s'
       \<and> warning_count s \<le> warning_count s')
   \<and> stats (add_error ''docs/guide.md'' ''message'' (init_tester ''docs'')) =
       \<lparr>files_checked = 0, links_checked = 0, code_blocks_tested = 0, error_count = 1,
        warning_count = 0\<rparr>"
  using counters_never_decrease [of "init_tester ''docs''"
      "example_env run_ok [(''docs/guide.md'', guide_text)]" False False docs_world
      "''docs/guide.md''" "''message''"]
  by (simp add: Let_def init_tester_def)

section \<open>Properties of the options and of the exit status\<close>

lemma check_link_fix: "check_link e w filepath fix l t = check_link e w filepath fix' l t"
  by (cases l) simp

lemma check_each_link_fix:
  "check_each_link e w filepath fix ls t = check_each_link e w filepath fix' ls t"
proof (induction ls arbitrary: t)
  case Nil
  then show ?case by simp
next
  case (Cons l ls)
  show ?case
    unfolding check_each_link.simps check_link_fix [of e w filepath "fix" l t fix']
    using Cons.IH by (simp split: prod.splits option.splits)
qed

lemma test_file_fix: "test_file e ex fix f wt = test_file e ex fix' f wt"
proof -
  obtain w t where wt: "wt = (w, t)" by (cases wt)
  have "check_links e w f content fix t' = check_links e w f content fix' t'" for content t'
    using check_each_link_fix [of e w f "fix" _ t' fix'] by (simp add: check_links_def)
  then show ?thesis
    unfolding wt by (simp add: Let_def split: sum.splits)
qed

lemma test_each_file_fix: "test_each_file e ex fix fs wt = test_each_file e ex fix' fs wt"
proof (induction fs arbitrary: wt)
  case Nil
  then show ?case by simp
next
  case (Cons f fs)
  show ?case
    unfolding test_each_file.simps test_file_fix [of e ex "fix" f wt fix']
    using Cons.IH by (simp split: prod.splits option.splits)
qed

lemma run_all_tests_fix: "run_all_tests e ex fix wt = run_all_tests e ex fix' wt"
proof -
  obtain w t where wt: "wt = (w, t)" by (cases wt)
  show ?thesis
    unfolding wt
    using test_each_file_fix [of e ex "fix" "glob_md e (docs_path t) w" "(w, t)" fix']
    by (simp add: run_all_tests_def Let_def)
qed

text \<open>
  Claim C8. The fix option changes nothing: \<^verbatim>\<open>run_all_tests\<close> gives the same outcome,
  world and tester (findings and statistics) for both values of its \<open>fix\<close> argument, and
  the command line gives the same exit status, world and tester with and without
  \<^verbatim>\<open>--fix\<close>, whatever the other options, the documents and the environment are.
\<close>

theorem fix_flag_inert:
  "run_all_tests e execute fix wt = run_all_tests e execute (\<not> fix) wt
   \<and> main e (a\<lparr>fix_flag := \<not> fix_flag a\<rparr>) w = main e a w"
  using run_all_tests_fix [of e execute "fix" wt "\<not> fix"]
    run_all_tests_fix [of e "execute_examples a \<or> all_flag a" "\<not> fix_flag a"
      "(w, init_tester (posix_path (path a)))" "fix_flag a"]
  by (simp add: main_def Let_def split: sum.splits)

lemma guide_run_status:
  "fst (main (example_env run_ok [(''docs/guide.md'', guide_text)]) plain_args docs_world) = 1"
  by code_simp

theorem fix_flag_inert_witness:
  "main (example_env run_ok [(''docs/guide.md'', guide_text)]) (plain_args\<lparr>fix_flag := True\<rparr>)
     docs_world =
   main (example_env run_ok [(''docs/guide.md'', guide_text)]) plain_args docs_world
   \<and> fst (main (example_env run_ok [(''docs/guide.md'', guide_text)])
            (plain_args\<lparr>fix_flag := True\<rparr>) docs_world) = 1"
proof -
  have off: "(\<not> fix_flag plain_args) = True"
    by (simp add: plain_args_def)
  show ?thesis
    using fix_flag_inert [of "example_env run_ok [(''docs/guide.md'', guide_text)]" False False
        "(docs_world, init_tester ''docs'')" plain_args docs_world]
      guide_run_status
    unfolding off by simp
qed

lemma init_tester_docs_path [simp]: "docs_path (init_tester (posix_path p)) = posix_path p"
  by (simp add: init_tester_def posix_path_idem)









end
